theory Spec2Isabelle
  imports Main "HOL-Library.Word"
begin

section \<open>Package odfl: pickup requests to the Old Dominion SOAP API\<close>

text \<open>
  The package is one Go file, \<^verbatim>\<open>olddominion.go\<close>: four package-level variables, three
  struct types whose \<^verbatim>\<open>xml\<close> struct tags describe the SOAP envelope, two setters
  (\<^verbatim>\<open>SetProductionMode\<close>, \<^verbatim>\<open>SetTimeout\<close>) and the method \<^verbatim>\<open>RequestPickup\<close>.

  The embedding keeps that shape. The package variables that are assigned become a record
  that every operation takes and returns; the structs become records; \<^verbatim>\<open>RequestPickup\<close>
  returns the object it mutated, the HTTP request it handed to the client, and Go's two results.
  Three things are outside the package and are parameters of the model (record \<open>env\<close>): what
  the network answers to a POST, what the XML tokenizer of \<^verbatim>\<open>encoding/xml\<close> finds at the
  start of a reply, and how \<^verbatim>\<open>strconv\<close> prints a \<^verbatim>\<open>float64\<close>.
\<close>

subsection \<open>Package-level variables\<close>

text \<open>\<^verbatim>\<open>time.Duration\<close> is an \<^verbatim>\<open>int64\<close> count of nanoseconds; its arithmetic wraps.\<close>

type_synonym Duration = "64 word"

definition Second :: Duration where
  "Second = 1000000000"

definition odURL :: string where
  "odURL = ''http://www.odfl.com/wsPickup_v1b/services/ODPickupSOAP''"

definition soapenv :: string where
  "soapenv = ''http://schemas.xmlsoap.org/soap/envelope/''"

definition pic :: string where
  "pic = ''http://pickup.ws.odfl.com''"

text \<open>
  \<^verbatim>\<open>timeout\<close> and \<^verbatim>\<open>testMode\<close> are the two variables the package assigns after
  initialisation. \<open>init_globals\<close> is their state when the package is loaded:
  \<^verbatim>\<open>var timeout = time.Duration(10 * time.Second)\<close>, \<^verbatim>\<open>var testMode = true\<close>.
\<close>

record globals =
  timeout :: Duration
  testMode :: bool

definition init_globals :: globals where
  "init_globals = \<lparr>timeout = 10 * Second, testMode = True\<rparr>"

subsection \<open>The request structs\<close>

text \<open>\<^verbatim>\<open>xml.Name\<close> of \<^verbatim>\<open>encoding/xml\<close>.\<close>

record xml_Name =
  Space :: string
  Local :: string

text \<open>
  \<^verbatim>\<open>uint\<close> is taken at 64 bits; a \<^verbatim>\<open>float64\<close> is its 64-bit pattern (no claim
  depends on either value). Field names that \<^verbatim>\<open>Shipper\<close> and \<^verbatim>\<open>Consignee\<close> share are
  written qualified: \<open>Shipper.City\<close>, \<open>Consignee.City\<close>.
\<close>

record Shipper =
  ODFL4MeUser :: string
  ODFL4MePassword :: string
  CompanyName :: string
  AddressLine1 :: string
  City :: string
  StateProvince :: string
  PostalCode :: string
  Country :: string
  ContactFName :: string
  ContactLName :: string
  PhoneAreaCode :: string
  PhoneNumber :: string
  TestFlag :: bool
  PickupDate :: string
  PickupTime :: string
  PickupTimeAMPM :: string
  WhoEntered :: string
  WhoPhoneNumber :: string
  AccountNumber :: string
  Attention :: string
  AddressLine2 :: string
  PhoneExt :: string
  FaxAreaCode :: string
  FaxNumber :: string
  Email :: string
  Comments :: string
  DockCloseTime :: string
  DockCloseAMPM :: string

record Consignee =
  CustomerShipmentID :: string
  City :: string
  StateProvince :: string
  PostalCode :: string
  Country :: string
  PhoneAreaCode :: string
  PhoneNumber :: string
  HandlingUnits :: "64 word"
  Pieces :: "64 word"
  UnitType :: string
  Weight :: "64 word"
  PaymentMethod :: string
  CompanyName :: string
  AddressLine1 :: string
  AddressLine2 :: string
  ContactFName :: string
  ContactLName :: string
  PhoneExt :: string
  FaxAreaCode :: string
  FaxNumber :: string
  Email :: string
  Hazmat :: string
  Freezable :: string
  Description :: string

record PickupRequest =
  XMLName :: xml_Name
  SoapenvAttr :: string
  PicAttr :: string
  Shipper :: Shipper
  Consignee :: Consignee

subsection \<open>What reflection shows the encoder\<close>

text \<open>
  \<^verbatim>\<open>xml.Marshal\<close> walks a value by reflection: for a struct it sees, in declaration
  order, each field's Go name, its struct tag and its value. \<open>gval\<close> is that view for the
  kinds of value the package has. A struct tag \<^verbatim>\<open>key:"value"\<close> is the pair
  \<open>(key, value)\<close>, copied from the source character by character; a field with no tag
  (those of \<^verbatim>\<open>xml.Name\<close>) has the pair of empty strings.
\<close>

datatype gval =
    VString string
  | VBool bool
  | VUint "64 word"
  | VFloat64 "64 word"
  | VStruct "gfield list"
and gfield = GField string "string \<times> string" gval

definition reflect_Name :: "xml_Name \<Rightarrow> gval" where
  "reflect_Name n = VStruct
     [GField ''Space'' ('''', '''') (VString (Space n)),
      GField ''Local'' ('''', '''') (VString (Local n))]"

definition reflect_Shipper :: "Shipper \<Rightarrow> gval" where
  "reflect_Shipper s = VStruct
     [GField ''ODFL4MeUser'' (''xml'', ''odfl4meUser'') (VString (ODFL4MeUser s)),
      GField ''ODFL4MePassword'' (''xml'', ''odfl4mePassword'') (VString (ODFL4MePassword s)),
      GField ''CompanyName'' (''xml'', ''companyName'') (VString (Shipper.CompanyName s)),
      GField ''AddressLine1'' (''xml'', ''addressLine1'') (VString (Shipper.AddressLine1 s)),
      GField ''City'' (''xml'', ''city'') (VString (Shipper.City s)),
      GField ''StateProvince'' (''xml'', ''stateProvince'') (VString (Shipper.StateProvince s)),
      GField ''PostalCode'' (''xml'', ''postalCode'') (VString (Shipper.PostalCode s)),
      GField ''Country'' (''xmml'', ''country'') (VString (Shipper.Country s)),
      GField ''ContactFName'' (''xml'', ''contactFName'') (VString (Shipper.ContactFName s)),
      GField ''ContactLName'' (''xml'', ''contactLName'') (VString (Shipper.ContactLName s)),
      GField ''PhoneAreaCode'' (''xml'', ''phoneAreaCode'') (VString (Shipper.PhoneAreaCode s)),
      GField ''PhoneNumber'' (''xml'', ''phoneNumber'') (VString (Shipper.PhoneNumber s)),
      GField ''TestFlag'' (''xml'', ''testFlag'') (VBool (TestFlag s)),
      GField ''PickupDate'' (''xml'', ''pickupDate'') (VString (PickupDate s)),
      GField ''PickupTime'' (''xml'', ''pickupTime'') (VString (PickupTime s)),
      GField ''PickupTimeAMPM'' (''xml'', ''pickupTimeAMPM'') (VString (PickupTimeAMPM s)),
      GField ''WhoEntered'' (''xml'', ''whoEntered'') (VString (WhoEntered s)),
      GField ''WhoPhoneNumber'' (''xml'', ''whoPhoneNumber'') (VString (WhoPhoneNumber s)),
      GField ''AccountNumber'' (''xml'', ''accountNumber'') (VString (AccountNumber s)),
      GField ''Attention'' (''xml'', ''attention'') (VString (Attention s)),
      GField ''AddressLine2'' (''xml'', ''addressLine2'') (VString (Shipper.AddressLine2 s)),
      GField ''PhoneExt'' (''xml'', ''phoneExt'') (VString (Shipper.PhoneExt s)),
      GField ''FaxAreaCode'' (''xml'', ''faxAreaCode'') (VString (Shipper.FaxAreaCode s)),
      GField ''FaxNumber'' (''xml'', ''faxNumber'') (VString (Shipper.FaxNumber s)),
      GField ''Email'' (''xml'', ''email'') (VString (Shipper.Email s)),
      GField ''Comments'' (''xml'', ''comments'') (VString (Comments s)),
      GField ''DockCloseTime'' (''xml'', ''dockCloseTime'') (VString (DockCloseTime s)),
      GField ''DockCloseAMPM'' (''xml'', ''dockCloseAMPM'') (VString (DockCloseAMPM s))]"

definition reflect_Consignee :: "Consignee \<Rightarrow> gval" where
  "reflect_Consignee c = VStruct
     [GField ''CustomerShipmentID'' (''xml'', ''customerShipmentId'') (VString (CustomerShipmentID c)),
      GField ''City'' (''xml'', ''city'') (VString (Consignee.City c)),
      GField ''StateProvince'' (''xml'', ''stateProvince'') (VString (Consignee.StateProvince c)),
      GField ''PostalCode'' (''xml'', ''postalCode'') (VString (Consignee.PostalCode c)),
      GField ''Country'' (''xml'', ''country'') (VString (Consignee.Country c)),
      GField ''PhoneAreaCode'' (''xml'', ''phoneAreaCode'') (VString (Consignee.PhoneAreaCode c)),
      GField ''PhoneNumber'' (''xml'', ''phoneNumber'') (VString (Consignee.PhoneNumber c)),
      GField ''HandlingUnits'' (''xml'', ''handlingUnits'') (VUint (HandlingUnits c)),
      GField ''Pieces'' (''xml'', ''pieces'') (VUint (Pieces c)),
      GField ''UnitType'' (''xml'', ''unitType'') (VString (UnitType c)),
      GField ''Weight'' (''xml'', ''weight'') (VFloat64 (Weight c)),
      GField ''PaymentMethod'' (''xml'', ''paymentMethod'') (VString (PaymentMethod c)),
      GField ''CompanyName'' (''xml'', ''companyName'') (VString (Consignee.CompanyName c)),
      GField ''AddressLine1'' (''xml'', ''addressLine1'') (VString (Consignee.AddressLine1 c)),
      GField ''AddressLine2'' (''xml'', ''addressLine2'') (VString (Consignee.AddressLine2 c)),
      GField ''ContactFName'' (''xml'', ''contactFName'') (VString (Consignee.ContactFName c)),
      GField ''ContactLName'' (''xml'', ''contactLName'') (VString (Consignee.ContactLName c)),
      GField ''PhoneExt'' (''xml'', ''phoneExt'') (VString (Consignee.PhoneExt c)),
      GField ''FaxAreaCode'' (''xml'', ''faxAreaCode'') (VString (Consignee.FaxAreaCode c)),
      GField ''FaxNumber'' (''xml'', ''faxNumber'') (VString (Consignee.FaxNumber c)),
      GField ''Email'' (''xml'', ''email'') (VString (Consignee.Email c)),
      GField ''Hazmat'' (''xml'', ''hazmat'') (VString (Hazmat c)),
      GField ''Freezable'' (''xml'', ''freezable'') (VString (Freezable c)),
      GField ''Description'' (''xml'', ''description'') (VString (Description c))]"

definition reflect_PickupRequest :: "PickupRequest \<Rightarrow> gval" where
  "reflect_PickupRequest p = VStruct
     [GField ''XMLName'' (''xml'', ''soapenv:Envelope'') (reflect_Name (XMLName p)),
      GField ''SoapenvAttr'' (''xml'', ''xmlns:soapenv,attr'') (VString (SoapenvAttr p)),
      GField ''PicAttr'' (''xml'', ''xmlns:pic,attr'') (VString (PicAttr p)),
      GField ''Shipper'' (''xml'', ''soapenv:Header>soapenv:Body>pic:pickupRequest>shipper'')
        (reflect_Shipper (Shipper p)),
      GField ''Consignee''
        (''xml'', ''soapenv:Header>soapenv:Body>pic:pickupRequest>consignees>Consignee'')
        (reflect_Consignee (Consignee p))]"

subsection \<open>The encoder of \<^verbatim>\<open>encoding/xml\<close>, as far as the package uses it\<close>

text \<open>
  The payload is the sequence of tokens the encoder writes: a start tag with its attributes,
  an end tag, character data. (The bytes are these tokens printed with the character data
  escaped; a field that is the empty string prints no character data at all.)
\<close>

datatype token =
    StartElement string "(string \<times> string) list"
  | EndElement string
  | CharData string

text \<open>\<^verbatim>\<open>reflect.StructTag.Get\<close>: the value under a key, the empty string when the key is absent.\<close>

definition Tag_Get :: "string \<times> string \<Rightarrow> string \<Rightarrow> string" where
  "Tag_Get tag key = (if fst tag = key then snd tag else [])"

text \<open>\<^verbatim>\<open>strings.Split\<close> on a one-character separator.\<close>

fun Split :: "string \<Rightarrow> char \<Rightarrow> string list" where
  "Split [] sep = [[]]"
| "Split (c # cs) sep =
     (if c = sep then [] # Split cs sep
      else (case Split cs sep of [] \<Rightarrow> [[c]] | w # ws \<Rightarrow> (c # w) # ws))"

text \<open>
  \<^verbatim>\<open>structFieldInfo\<close>: the tag under the key \<^verbatim>\<open>xml\<close> is split at commas; the first part
  is the name, the others are flags, of which the package uses \<^verbatim>\<open>attr\<close> only. An empty name
  defaults to the Go field name. Otherwise the name is split at \<^verbatim>\<open>></\<close>: the last part names
  the element and the parts before it are the parent elements.
\<close>

record fieldInfo =
  fi_name :: string
  fi_attr :: bool
  fi_parents :: "string list"

definition structFieldInfo :: "string \<Rightarrow> string \<times> string \<Rightarrow> fieldInfo" where
  "structFieldInfo fname ftag =
     (let tokens = Split (Tag_Get ftag ''xml'') (CHR '','');
          tag = hd tokens;
          is_attr = (''attr'' \<in> set (tl tokens))
      in if tag = [] then \<lparr>fi_name = fname, fi_attr = is_attr, fi_parents = []\<rparr>
         else (let parents = Split tag (CHR ''>'')
               in \<lparr>fi_name = last parents, fi_attr = is_attr, fi_parents = butlast parents\<rparr>))"

text \<open>\<^verbatim>\<open>strconv.FormatBool\<close> and \<^verbatim>\<open>strconv.FormatUint(v, 10)\<close>.\<close>

definition FormatBool :: "bool \<Rightarrow> string" where
  "FormatBool b = (if b then ''true'' else ''false'')"

fun FormatUint :: "nat \<Rightarrow> string" where
  "FormatUint n =
     (if n < 10 then [''0123456789'' ! n]
      else FormatUint (n div 10) @ [''0123456789'' ! (n mod 10)])"

declare FormatUint.simps [simp del]

text \<open>
  \<^verbatim>\<open>marshalSimple\<close>: the text of a value that is not a struct. How a \<^verbatim>\<open>float64\<close> prints
  is the parameter \<open>ff\<close>. (The encoder refuses a struct here; the package has none in
  this position, its two attribute fields are strings.)
\<close>

fun marshalSimple :: "(64 word \<Rightarrow> string) \<Rightarrow> gval \<Rightarrow> string" where
  "marshalSimple ff (VString s) = s"
| "marshalSimple ff (VBool b) = FormatBool b"
| "marshalSimple ff (VUint n) = FormatUint (unat n)"
| "marshalSimple ff (VFloat64 x) = ff x"
| "marshalSimple ff (VStruct fs) = []"

text \<open>
  The element name that a struct's \<^verbatim>\<open>XMLName\<close> field gives through its tag (when the tag
  has no name the encoder looks at the value of the field, which the package never relies on:
  its one \<^verbatim>\<open>XMLName\<close> is tagged), and the attributes of the start tag: the fields flagged
  \<^verbatim>\<open>attr\<close>, in order, none left out (the package never sets \<^verbatim>\<open>omitempty\<close>).
\<close>

fun xmlname :: "gfield list \<Rightarrow> string option" where
  "xmlname [] = None"
| "xmlname (GField fname ftag v # fs) =
     (if fname = ''XMLName''
      then (if fi_name (structFieldInfo [] ftag) = [] then None
            else Some (fi_name (structFieldInfo [] ftag)))
      else xmlname fs)"

fun marshalAttrs :: "(64 word \<Rightarrow> string) \<Rightarrow> gfield list \<Rightarrow> (string \<times> string) list" where
  "marshalAttrs ff [] = []"
| "marshalAttrs ff (GField fname ftag v # fs) =
     (if fname \<noteq> ''XMLName'' \<and> fi_attr (structFieldInfo fname ftag)
      then (fi_name (structFieldInfo fname ftag), marshalSimple ff v) # marshalAttrs ff fs
      else marshalAttrs ff fs)"

text \<open>
  \<^verbatim>\<open>parentStack\<close>: the parent elements that are open. \<^verbatim>\<open>trim\<close> closes those that the
  next field does not share (innermost first); \<^verbatim>\<open>push\<close> opens the ones it adds.
\<close>

fun common_prefix :: "string list \<Rightarrow> string list \<Rightarrow> nat" where
  "common_prefix (a # as) (b # bs) = (if a = b then Suc (common_prefix as bs) else 0)"
| "common_prefix as bs = 0"

definition trim :: "string list \<Rightarrow> string list \<Rightarrow> token list \<times> string list" where
  "trim stack parents =
     (let split = common_prefix parents stack
      in (map EndElement (rev (drop split stack)), take split stack))"

definition push :: "string list \<Rightarrow> string list \<Rightarrow> token list \<times> string list" where
  "push stack parents = (map (\<lambda>n. StartElement n []) parents, stack @ parents)"

text \<open>
  \<^verbatim>\<open>marshalValue\<close> writes one element: its name is the struct's \<^verbatim>\<open>XMLName\<close> tag when
  there is one, else the name \<open>nm\<close> that the enclosing field (or, at the top, the type) gives.
  \<^verbatim>\<open>marshalStruct\<close> writes the element fields in order under their parents and closes the
  parents that are still open at the end.
\<close>

fun marshalValue :: "(64 word \<Rightarrow> string) \<Rightarrow> string \<Rightarrow> gval \<Rightarrow> token list"
  and marshalStruct :: "(64 word \<Rightarrow> string) \<Rightarrow> string list \<Rightarrow> gfield list \<Rightarrow> token list" where
  "marshalValue ff nm (VString s) = [StartElement nm [], CharData s, EndElement nm]"
| "marshalValue ff nm (VBool b) = [StartElement nm [], CharData (FormatBool b), EndElement nm]"
| "marshalValue ff nm (VUint n) =
     [StartElement nm [], CharData (FormatUint (unat n)), EndElement nm]"
| "marshalValue ff nm (VFloat64 x) = [StartElement nm [], CharData (ff x), EndElement nm]"
| "marshalValue ff nm (VStruct fs) =
     StartElement (case xmlname fs of Some n \<Rightarrow> n | None \<Rightarrow> nm) (marshalAttrs ff fs)
       # marshalStruct ff [] fs
       @ [EndElement (case xmlname fs of Some n \<Rightarrow> n | None \<Rightarrow> nm)]"
| "marshalStruct ff stack [] = fst (trim stack [])"
| "marshalStruct ff stack (GField fname ftag v # fs) =
     (let finfo = structFieldInfo fname ftag
      in if fname = ''XMLName'' \<or> fi_attr finfo then marshalStruct ff stack fs
         else (let trimmed = trim stack (fi_parents finfo);
                   pushed = push (snd trimmed)
                              (drop (length (snd trimmed)) (fi_parents finfo))
               in fst trimmed @ fst pushed
                  @ marshalValue ff (fi_name finfo) v
                  @ marshalStruct ff (snd pushed) fs))"

subsection \<open>Errors\<close>

text \<open>
  An error of a library is opaque: its message. \<^verbatim>\<open>errors.Wrap(err, message)\<close> keeps the
  cause under the message.
\<close>

datatype error = LibError string | Wrap error string

text \<open>
  \<^verbatim>\<open>xml.Marshal(p)\<close>. The encoder refuses channels, functions and maps; a
  \<^verbatim>\<open>PickupRequest\<close> has none, so the result is always the payload.
\<close>

definition xml_Marshal :: "(64 word \<Rightarrow> string) \<Rightarrow> PickupRequest \<Rightarrow> error + token list" where
  "xml_Marshal ff p = Inr (marshalValue ff ''PickupRequest'' (reflect_PickupRequest p))"

subsection \<open>Reading a payload back\<close>

text \<open>
  The structural re-parse of a token sequence: the element tree, when the tags nest properly
  and there is exactly one root. \<open>build\<close> keeps the open elements on a stack, each with its
  attributes and the siblings before it; \<open>cur\<close> holds the children read so far, last first.
\<close>

datatype xml = Element string "(string \<times> string) list" "xml list" | Text string

fun build ::
  "(string \<times> (string \<times> string) list \<times> xml list) list \<Rightarrow> xml list \<Rightarrow> token list
     \<Rightarrow> xml list option" where
  "build stk cur [] = (if stk = [] then Some (rev cur) else None)"
| "build stk cur (StartElement n as # ts) = build ((n, as, cur) # stk) [] ts"
| "build stk cur (CharData s # ts) = build stk (Text s # cur) ts"
| "build [] cur (EndElement n # ts) = None"
| "build ((m, as, up) # stk) cur (EndElement n # ts) =
     (if m = n then build stk (Element m as (rev cur) # up) ts else None)"

definition reparse :: "token list \<Rightarrow> xml option" where
  "reparse ts = (case build [] [] ts of Some [e] \<Rightarrow> Some e | _ \<Rightarrow> None)"

fun el_name :: "xml \<Rightarrow> string" where
  "el_name (Element n as cs) = n"
| "el_name (Text s) = []"

fun el_attrs :: "xml \<Rightarrow> (string \<times> string) list" where
  "el_attrs (Element n as cs) = as"
| "el_attrs (Text s) = []"

fun el_children :: "xml \<Rightarrow> xml list" where
  "el_children (Element n as cs) = cs"
| "el_children (Text s) = []"

fun is_element :: "xml \<Rightarrow> bool" where
  "is_element (Element n as cs) = True"
| "is_element (Text s) = False"

fun text_of :: "xml \<Rightarrow> string" where
  "text_of (Text s) = s"
| "text_of (Element n as cs) = concat (map (\<lambda>c. case c of Text s \<Rightarrow> s | Element m bs ds \<Rightarrow> []) cs)"

text \<open>The names of the child elements, in document order.\<close>

definition child_names :: "xml \<Rightarrow> string list" where
  "child_names e = map el_name (filter is_element (el_children e))"

text \<open>\<open>select path e\<close>: the elements reached from \<open>e\<close> by going down through children with the
  names of \<open>path\<close>, in order.\<close>

fun select :: "string list \<Rightarrow> xml \<Rightarrow> xml list" where
  "select [] e = [e]"
| "select (n # ns) e =
     concat (map (select ns) (filter (\<lambda>c. is_element c \<and> el_name c = n) (el_children e)))"

text \<open>\<open>paths n e\<close>: for every element named \<open>n\<close> in \<open>e\<close>, the names on the way from the root
  down to it, both ends included.\<close>

fun paths :: "string \<Rightarrow> xml \<Rightarrow> string list list" where
  "paths n (Text s) = []"
| "paths n (Element m as cs) =
     (if m = n then [[m]] else []) @ map ((#) m) (concat (map (paths n) cs))"

subsection \<open>The network and the decoder\<close>

text \<open>
  The request that \<^verbatim>\<open>RequestPickup\<close> hands to \<^verbatim>\<open>http.Client.Post\<close>: the client's
  \<^verbatim>\<open>Timeout\<close> and the three arguments of \<^verbatim>\<open>Post\<close>. A response body is an
  \<^verbatim>\<open>io.Reader\<close>: the bytes that can be read from it and then the end of the stream or an
  error. \<^verbatim>\<open>ioutil.ReadAll\<close> returns both.
\<close>

record http_Request =
  Timeout :: Duration
  url :: string
  contentType :: string
  body :: "token list"

datatype stream = Stream string "error option"

record http_Response =
  StatusCode :: nat
  Body :: stream

fun ioutil_ReadAll :: "stream \<Rightarrow> string \<times> error option" where
  "ioutil_ReadAll (Stream bytes e) = (bytes, e)"

text \<open>
  What lies outside the package. \<open>Post\<close> is the network and the server: the response to a
  request, or the error of the client (no connection, timeout, a fault of the transport).
  \<open>firstStart\<close> is the tokenizer of \<^verbatim>\<open>encoding/xml\<close> run on a reply until the first start
  tag: that tag's name, or the error it meets before one (a syntax error, the end of the input).
  \<open>FormatFloat\<close> is \<^verbatim>\<open>strconv.FormatFloat(x, 'g', -1, 64)\<close> on the bits of \<open>x\<close>.
\<close>

record env =
  Post :: "http_Request \<Rightarrow> error + http_Response"
  firstStart :: "string \<Rightarrow> error + string"
  FormatFloat :: "64 word \<Rightarrow> string"

text \<open>
  The target of the decoder is \<^verbatim>\<open>responseData\<close>, a \<^verbatim>\<open>map[string]interface{}\<close> that is
  \<^verbatim>\<open>nil\<close> (\<open>None\<close>) until something makes it.

  \<^verbatim>\<open>xml.Unmarshal(data, &responseData)\<close>: the decoder first reads tokens up to the first
  start tag and returns the tokenizer's error if it does not get there. Then it switches on
  the kind of the target: interface, slice, struct and the scalar kinds have a case, a map
  falls to \<^verbatim>\<open>default: return errors.New("unknown type " + v.Type().String())\<close>. The target
  is not written on either way.
\<close>

datatype interface = IString string | INumber "64 word"

definition xml_Unmarshal ::
  "(string \<Rightarrow> error + string) \<Rightarrow> string \<Rightarrow> (string \<rightharpoonup> interface) option
     \<Rightarrow> (string \<rightharpoonup> interface) option \<times> error option" where
  "xml_Unmarshal tok data v =
     (case tok data of
        Inl e \<Rightarrow> (v, Some e)
      | Inr start \<Rightarrow> (v, Some (LibError ''unknown type map[string]interface {}'')))"

subsection \<open>The operations of the package\<close>

definition SetProductionMode :: "bool \<Rightarrow> globals \<Rightarrow> globals" where
  "SetProductionMode yes g = (if yes then g\<lparr>testMode := False\<rparr> else g)"

definition SetTimeout :: "Duration \<Rightarrow> globals \<Rightarrow> globals" where
  "SetTimeout seconds g = g\<lparr>timeout := seconds * Second\<rparr>"

text \<open>
  What a call of \<^verbatim>\<open>RequestPickup\<close> leaves behind: the object \<^verbatim>\<open>*p\<close> after the call, the
  request given to the HTTP client (if the call got that far), whether the deferred
  \<^verbatim>\<open>res.Body.Close()\<close> ran, what went to \<^verbatim>\<open>log.Println\<close>, and the two results.
\<close>

record result =
  object :: PickupRequest
  posted :: "http_Request option"
  closed :: bool
  logged :: "(string \<rightharpoonup> interface) option list"
  responseData :: "(string \<rightharpoonup> interface) option"
  err :: "error option"

definition RequestPickup :: "env \<Rightarrow> globals \<Rightarrow> PickupRequest \<Rightarrow> result" where
  "RequestPickup w g p =
     (case xml_Marshal (FormatFloat w) p of
        Inl e \<Rightarrow>
          \<lparr>object = p, posted = None, closed = False, logged = [], responseData = None,
           err = Some (Wrap e ''odfl.RequestPickup - could not marshal xml'')\<rparr>
      | Inr xmlBytes \<Rightarrow>
          (let p1 = p\<lparr>SoapenvAttr := soapenv\<rparr>;
               p2 = p1\<lparr>PicAttr := pic\<rparr>;
               p3 = p2\<lparr>Shipper := (Shipper p2)\<lparr>TestFlag := testMode g\<rparr>\<rparr>;
               req = \<lparr>Timeout = timeout g, url = odURL, contentType = ''text/xml'',
                      body = xmlBytes\<rparr>
           in case Post w req of
                Inl e \<Rightarrow>
                  \<lparr>object = p3, posted = Some req, closed = False, logged = [],
                   responseData = None,
                   err = Some (Wrap e ''odfl.RequestPickup - could not make post request'')\<rparr>
              | Inr res \<Rightarrow>
                  (case ioutil_ReadAll (Body res) of
                     (bytes, Some e) \<Rightarrow>
                       \<lparr>object = p3, posted = Some req, closed = True, logged = [],
                        responseData = None,
                        err = Some (Wrap e ''odfl.RequestPickup - could not read response 1'')\<rparr>
                   | (bytes, None) \<Rightarrow>
                       (case xml_Unmarshal (firstStart w) bytes None of
                          (data, Some e) \<Rightarrow>
                            \<lparr>object = p3, posted = Some req, closed = True, logged = [],
                             responseData = data,
                             err = Some
                               (Wrap e ''odfl.RequestPickup - could not read response 2'')\<rparr>
                        | (data, None) \<Rightarrow>
                            \<lparr>object = p3, posted = Some req, closed = True, logged = [data],
                             responseData = data, err = None\<rparr>))))"

subsection \<open>Callers\<close>

text \<open>
  The Go zero values, \<^verbatim>\<open>Shipper{}\<close>, \<^verbatim>\<open>Consignee{}\<close> and \<^verbatim>\<open>PickupRequest{}\<close>: what a
  caller starts from before setting fields.
\<close>

definition zero_Shipper :: Shipper where
  "zero_Shipper =
     \<lparr>ODFL4MeUser = [], ODFL4MePassword = [], Shipper.CompanyName = [],
      Shipper.AddressLine1 = [], Shipper.City = [], Shipper.StateProvince = [],
      Shipper.PostalCode = [], Shipper.Country = [], Shipper.ContactFName = [],
      Shipper.ContactLName = [], Shipper.PhoneAreaCode = [], Shipper.PhoneNumber = [],
      TestFlag = False, PickupDate = [], PickupTime = [], PickupTimeAMPM = [],
      WhoEntered = [], WhoPhoneNumber = [], AccountNumber = [], Attention = [],
      Shipper.AddressLine2 = [], Shipper.PhoneExt = [], Shipper.FaxAreaCode = [],
      Shipper.FaxNumber = [], Shipper.Email = [], Comments = [], DockCloseTime = [],
      DockCloseAMPM = []\<rparr>"

definition zero_Consignee :: Consignee where
  "zero_Consignee =
     \<lparr>CustomerShipmentID = [], Consignee.City = [], Consignee.StateProvince = [],
      Consignee.PostalCode = [], Consignee.Country = [], Consignee.PhoneAreaCode = [],
      Consignee.PhoneNumber = [], HandlingUnits = 0, Pieces = 0, UnitType = [], Weight = 0,
      PaymentMethod = [], Consignee.CompanyName = [], Consignee.AddressLine1 = [],
      Consignee.AddressLine2 = [], Consignee.ContactFName = [], Consignee.ContactLName = [],
      Consignee.PhoneExt = [], Consignee.FaxAreaCode = [], Consignee.FaxNumber = [],
      Consignee.Email = [], Hazmat = [], Freezable = [], Description = []\<rparr>"

definition zero_PickupRequest :: PickupRequest where
  "zero_PickupRequest =
     \<lparr>XMLName = \<lparr>Space = [], Local = []\<rparr>, SoapenvAttr = [], PicAttr = [],
      Shipper = zero_Shipper, Consignee = zero_Consignee\<rparr>"

text \<open>
  A caller's use of the mode controller: a sequence of calls of the two setters, run from
  left to right.
\<close>

datatype mc_call = CallSetProductionMode bool | CallSetTimeout Duration

fun mc_step :: "globals \<Rightarrow> mc_call \<Rightarrow> globals" where
  "mc_step g (CallSetProductionMode yes) = SetProductionMode yes g"
| "mc_step g (CallSetTimeout seconds) = SetTimeout seconds g"

definition mc_run :: "mc_call list \<Rightarrow> globals \<Rightarrow> globals" where
  "mc_run calls g = foldl mc_step g calls"

text \<open>The document that a call posted, read back from the payload.\<close>

definition posted_document :: "result \<Rightarrow> xml option" where
  "posted_document r = (case posted r of None \<Rightarrow> None | Some req \<Rightarrow> reparse (body req))"

text \<open>
  Two endpoints to run calls against. \<open>mock_refused\<close> cannot be reached: the POST fails.
  \<open>mock_reply bytes start\<close> answers every POST with status 200 and the body \<open>bytes\<close>, on which
  the tokenizer's scan for the first start tag gives \<open>start\<close>. Both print the \<^verbatim>\<open>float64\<close>
  zero, the only one the requests below carry, as \<^verbatim>\<open>0\<close>.
\<close>

definition mock_refused :: env where
  "mock_refused =
     \<lparr>Post = (\<lambda>req. Inl (LibError ''dial tcp: connection refused'')),
      firstStart = (\<lambda>data. Inl (LibError ''EOF'')),
      FormatFloat = (\<lambda>x. ''0'')\<rparr>"

definition mock_reply :: "string \<Rightarrow> error + string \<Rightarrow> env" where
  "mock_reply bytes start =
     \<lparr>Post = (\<lambda>req. Inr \<lparr>StatusCode = 200, Body = Stream bytes None\<rparr>),
      firstStart = (\<lambda>data. start),
      FormatFloat = (\<lambda>x. ''0'')\<rparr>"

text \<open>
  Three replies. The first is well formed; the tokenizer reads its first start tag. The second
  is cut off inside its first tag, where the tokenizer reports the end of the input as a syntax
  error. The third is not XML at all: the tokenizer reads it as character data and then meets
  the end of the input.
\<close>

definition mock_confirmed :: env where
  "mock_confirmed =
     mock_reply
       ''<pickupResponse><confirmationNumber>TEST123</confirmationNumber></pickupResponse>''
       (Inr ''pickupResponse'')"

definition mock_truncated :: env where
  "mock_truncated =
     mock_reply ''<pickupRes'' (Inl (LibError ''XML syntax error on line 1: unexpected EOF''))"

definition mock_not_xml :: env where
  "mock_not_xml = mock_reply ''confirmationNumber=TEST123'' (Inl (LibError ''EOF''))"

section \<open>Properties\<close>

subsection \<open>The mode controller\<close>

lemma mc_step_keeps_production: "\<not> testMode g \<Longrightarrow> \<not> testMode (mc_step g c)"
  by (cases c) (simp_all add: SetProductionMode_def SetTimeout_def)

lemma mc_run_keeps_production: "\<not> testMode g \<Longrightarrow> \<not> testMode (mc_run calls g)"
  unfolding mc_run_def
proof (induction calls arbitrary: g)
  case Nil
  then show ?case by simp
next
  case (Cons c calls)
  from Cons.prems have "\<not> testMode (mc_step g c)"
    by (rule mc_step_keeps_production)
  then have "\<not> testMode (foldl mc_step (mc_step g c) calls)"
    by (rule Cons.IH)
  then show ?case by simp
qed


text \<open>
  C6. \<^verbatim>\<open>SetProductionMode(false)\<close> returns the state it was given, whatever that state is;
  and once \<^verbatim>\<open>SetProductionMode(true)\<close> has been called, \<^verbatim>\<open>testMode\<close> is false after every
  further sequence of calls of the two setters, so no later \<^verbatim>\<open>SetProductionMode(false)\<close>
  brings test mode back.
\<close>

theorem SetProductionMode_promote_only:
  "SetProductionMode False g = g
   \<and> testMode (mc_run calls (SetProductionMode True g)) = False"
  using mc_run_keeps_production [of "SetProductionMode True g" calls]
  by (simp add: SetProductionMode_def)

subsection \<open>What a call does, step by step\<close>

text \<open>
  The request handed to the HTTP client: the timeout of that moment, the fixed URL and content
  type, and the payload made from \<open>p\<close> as the caller passed it.
\<close>

lemma posted_RequestPickup:
  "posted (RequestPickup w g p) =
     Some \<lparr>Timeout = timeout g, url = odURL, contentType = ''text/xml'',
           body = marshalValue (FormatFloat w) ''PickupRequest'' (reflect_PickupRequest p)\<rparr>"
  by (simp add: RequestPickup_def xml_Marshal_def Let_def
           split: sum.splits prod.splits option.splits)

lemma object_RequestPickup:
  "object (RequestPickup w g p) =
     p\<lparr>SoapenvAttr := soapenv, PicAttr := pic,
       Shipper := (Shipper p)\<lparr>TestFlag := testMode g\<rparr>\<rparr>"
  by (simp add: RequestPickup_def xml_Marshal_def Let_def
           split: sum.splits prod.splits option.splits)

text \<open>
  The payload, read back: the envelope with the two attributes of the root, the three nested
  containers, and one element for each field of the shipper and of the consignee, in the order
  of declaration. Everything in it comes from \<open>p\<close> as it was when the call began; the
  package state \<open>g\<close> does not occur.
\<close>

lemma document_RequestPickup:
  "posted_document (RequestPickup w g p) = Some
     (Element ''soapenv:Envelope''
        [(''xmlns:soapenv'', SoapenvAttr p), (''xmlns:pic'', PicAttr p)]
        [Element ''soapenv:Header'' []
          [Element ''soapenv:Body'' []
            [Element ''pic:pickupRequest'' []
              [Element ''shipper'' []
                 (map (\<lambda>(n, t). Element n [] [Text t])
                    [(''odfl4meUser'', ODFL4MeUser (Shipper p)),
                     (''odfl4mePassword'', ODFL4MePassword (Shipper p)),
                     (''companyName'', Shipper.CompanyName (Shipper p)),
                     (''addressLine1'', Shipper.AddressLine1 (Shipper p)),
                     (''city'', Shipper.City (Shipper p)),
                     (''stateProvince'', Shipper.StateProvince (Shipper p)),
                     (''postalCode'', Shipper.PostalCode (Shipper p)),
                     (''Country'', Shipper.Country (Shipper p)),
                     (''contactFName'', Shipper.ContactFName (Shipper p)),
                     (''contactLName'', Shipper.ContactLName (Shipper p)),
                     (''phoneAreaCode'', Shipper.PhoneAreaCode (Shipper p)),
                     (''phoneNumber'', Shipper.PhoneNumber (Shipper p)),
                     (''testFlag'', FormatBool (TestFlag (Shipper p))),
                     (''pickupDate'', PickupDate (Shipper p)),
                     (''pickupTime'', PickupTime (Shipper p)),
                     (''pickupTimeAMPM'', PickupTimeAMPM (Shipper p)),
                     (''whoEntered'', WhoEntered (Shipper p)),
                     (''whoPhoneNumber'', WhoPhoneNumber (Shipper p)),
                     (''accountNumber'', AccountNumber (Shipper p)),
                     (''attention'', Attention (Shipper p)),
                     (''addressLine2'', Shipper.AddressLine2 (Shipper p)),
                     (''phoneExt'', Shipper.PhoneExt (Shipper p)),
                     (''faxAreaCode'', Shipper.FaxAreaCode (Shipper p)),
                     (''faxNumber'', Shipper.FaxNumber (Shipper p)),
                     (''email'', Shipper.Email (Shipper p)),
                     (''comments'', Comments (Shipper p)),
                     (''dockCloseTime'', DockCloseTime (Shipper p)),
                     (''dockCloseAMPM'', DockCloseAMPM (Shipper p))]),
               Element ''consignees'' []
                 [Element ''Consignee'' []
                    (map (\<lambda>(n, t). Element n [] [Text t])
                       [(''customerShipmentId'', CustomerShipmentID (Consignee p)),
                        (''city'', Consignee.City (Consignee p)),
                        (''stateProvince'', Consignee.StateProvince (Consignee p)),
                        (''postalCode'', Consignee.PostalCode (Consignee p)),
                        (''country'', Consignee.Country (Consignee p)),
                        (''phoneAreaCode'', Consignee.PhoneAreaCode (Consignee p)),
                        (''phoneNumber'', Consignee.PhoneNumber (Consignee p)),
                        (''handlingUnits'', FormatUint (unat (HandlingUnits (Consignee p)))),
                        (''pieces'', FormatUint (unat (Pieces (Consignee p)))),
                        (''unitType'', UnitType (Consignee p)),
                        (''weight'', FormatFloat w (Weight (Consignee p))),
                        (''paymentMethod'', PaymentMethod (Consignee p)),
                        (''companyName'', Consignee.CompanyName (Consignee p)),
                        (''addressLine1'', Consignee.AddressLine1 (Consignee p)),
                        (''addressLine2'', Consignee.AddressLine2 (Consignee p)),
                        (''contactFName'', Consignee.ContactFName (Consignee p)),
                        (''contactLName'', Consignee.ContactLName (Consignee p)),
                        (''phoneExt'', Consignee.PhoneExt (Consignee p)),
                        (''faxAreaCode'', Consignee.FaxAreaCode (Consignee p)),
                        (''faxNumber'', Consignee.FaxNumber (Consignee p)),
                        (''email'', Consignee.Email (Consignee p)),
                        (''hazmat'', Hazmat (Consignee p)),
                        (''freezable'', Freezable (Consignee p)),
                        (''description'', Description (Consignee p))])]]]]])"
  by (simp add: posted_document_def posted_RequestPickup reflect_PickupRequest_def
        reflect_Shipper_def reflect_Consignee_def reflect_Name_def structFieldInfo_def
        Tag_Get_def trim_def push_def reparse_def Let_def)

lemma payload_TestFlag_is_the_callers:
  "map_option
     (\<lambda>doc. map text_of
        (select [''soapenv:Header'', ''soapenv:Body'', ''pic:pickupRequest'', ''shipper'',
                 ''testFlag''] doc))
     (posted_document (RequestPickup w g p)) = Some [FormatBool (TestFlag (Shipper p))]"
  by (simp add: document_RequestPickup)

lemma payload_root_attributes:
  "map_option el_attrs (posted_document (RequestPickup w g p)) =
     Some [(''xmlns:soapenv'', SoapenvAttr p), (''xmlns:pic'', PicAttr p)]"
  by (simp add: document_RequestPickup)

lemma payload_pickupRequest_path:
  "map_option (paths ''pic:pickupRequest'') (posted_document (RequestPickup w g p)) =
     Some [[''soapenv:Envelope'', ''soapenv:Header'', ''soapenv:Body'', ''pic:pickupRequest'']]"
  by (simp add: document_RequestPickup)

lemma payload_shipper_tags:
  "map_option
     (\<lambda>doc. map child_names
        (select [''soapenv:Header'', ''soapenv:Body'', ''pic:pickupRequest'', ''shipper''] doc))
     (posted_document (RequestPickup w g p)) =
   Some [[''odfl4meUser'', ''odfl4mePassword'', ''companyName'', ''addressLine1'', ''city'',
          ''stateProvince'', ''postalCode'', ''Country'', ''contactFName'', ''contactLName'',
          ''phoneAreaCode'', ''phoneNumber'', ''testFlag'', ''pickupDate'', ''pickupTime'',
          ''pickupTimeAMPM'', ''whoEntered'', ''whoPhoneNumber'', ''accountNumber'',
          ''attention'', ''addressLine2'', ''phoneExt'', ''faxAreaCode'', ''faxNumber'',
          ''email'', ''comments'', ''dockCloseTime'', ''dockCloseAMPM'']]"
  by (simp add: document_RequestPickup child_names_def)

subsection \<open>The payload\<close>

text \<open>
  C1. The claim: the \<^verbatim>\<open>testFlag\<close> of the payload is \<^verbatim>\<open>true\<close> while
  \<^verbatim>\<open>SetProductionMode(true)\<close> has never been called and \<^verbatim>\<open>false\<close> afterwards, whatever
  the caller put on the shipper. The code marshals before it assigns
  \<^verbatim>\<open>p.Shipper.TestFlag = testMode\<close>, so the payload carries the caller's value. With no call
  of the mode controller (test mode) and the zero-value request, whose flag is false, the
  payload says \<^verbatim>\<open>false\<close>; after \<^verbatim>\<open>SetProductionMode(true)\<close> and with the flag set to true
  by the caller, the payload says \<^verbatim>\<open>true\<close>.
\<close>

theorem RequestPickup_payload_TestFlag_stale:
  "testMode (mc_run [] init_globals) = True
   \<and> map_option
        (\<lambda>doc. map text_of
           (select [''soapenv:Header'', ''soapenv:Body'', ''pic:pickupRequest'', ''shipper'',
                    ''testFlag''] doc))
        (posted_document (RequestPickup mock_refused (mc_run [] init_globals)
           zero_PickupRequest)) = Some [''false'']
   \<and> testMode (mc_run [CallSetProductionMode True] init_globals) = False
   \<and> map_option
        (\<lambda>doc. map text_of
           (select [''soapenv:Header'', ''soapenv:Body'', ''pic:pickupRequest'', ''shipper'',
                    ''testFlag''] doc))
        (posted_document (RequestPickup mock_refused
           (mc_run [CallSetProductionMode True] init_globals)
           (zero_PickupRequest\<lparr>Shipper := zero_Shipper\<lparr>TestFlag := True\<rparr>\<rparr>)))
       = Some [''true'']"
  unfolding payload_TestFlag_is_the_callers
  by (simp add: mc_run_def init_globals_def SetProductionMode_def zero_PickupRequest_def
        zero_Shipper_def FormatBool_def)

text \<open>
  C2. The claim: the payload of every request, read back, has its pickup-request element at
  the fourth level (envelope, header, body, pickup request) and a root that carries the two
  namespaces. The nesting is as claimed. The two attributes are on the root, but the code
  marshals before it assigns \<^verbatim>\<open>p.SoapenvAttr = soapenv\<close> and \<^verbatim>\<open>p.PicAttr = pic\<close>: for the
  zero-value request both attributes are empty and neither namespace is declared.
\<close>

theorem RequestPickup_payload_namespaces_stale:
  "map_option el_attrs
     (posted_document (RequestPickup mock_refused init_globals zero_PickupRequest))
     = Some [(''xmlns:soapenv'', []), (''xmlns:pic'', [])]
   \<and> soapenv \<noteq> [] \<and> pic \<noteq> []
   \<and> map_option (paths ''pic:pickupRequest'')
        (posted_document (RequestPickup mock_refused init_globals zero_PickupRequest))
     = Some [[''soapenv:Envelope'', ''soapenv:Header'', ''soapenv:Body'',
              ''pic:pickupRequest'']]"
  unfolding payload_root_attributes payload_pickupRequest_path
  by (simp add: zero_PickupRequest_def soapenv_def pic_def)

text \<open>
  C4. The claim: every field goes out under the tag name of the data model, the shipper's
  country as \<^verbatim>\<open>country\<close>. The struct tag of \<^verbatim>\<open>Shipper.Country\<close> has the key
  \<^verbatim>\<open>xmml\<close>, which the encoder does not read, so the element is named after the Go field:
  \<^verbatim>\<open>Country\<close>. For a shipper in \<^verbatim>\<open>USA\<close> the payload has no \<^verbatim>\<open>country\<close> under
  \<^verbatim>\<open>shipper\<close> and has \<^verbatim>\<open>Country\<close> with the value; the consignee's country, tagged
  \<^verbatim>\<open>xml\<close>, is \<^verbatim>\<open>country\<close>.
\<close>

theorem Shipper_Country_tag:
  "map_option
     (\<lambda>doc. map text_of
        (select [''soapenv:Header'', ''soapenv:Body'', ''pic:pickupRequest'', ''shipper'',
                 ''country''] doc))
     (posted_document (RequestPickup mock_refused init_globals
        (zero_PickupRequest\<lparr>Shipper := zero_Shipper\<lparr>Shipper.Country := ''USA''\<rparr>\<rparr>)))
     = Some []
   \<and> map_option
        (\<lambda>doc. map text_of
           (select [''soapenv:Header'', ''soapenv:Body'', ''pic:pickupRequest'', ''shipper'',
                    ''Country''] doc))
        (posted_document (RequestPickup mock_refused init_globals
           (zero_PickupRequest\<lparr>Shipper := zero_Shipper\<lparr>Shipper.Country := ''USA''\<rparr>\<rparr>)))
     = Some [''USA'']
   \<and> map_option
        (\<lambda>doc. map text_of
           (select [''soapenv:Header'', ''soapenv:Body'', ''pic:pickupRequest'', ''consignees'',
                    ''Consignee'', ''country''] doc))
        (posted_document (RequestPickup mock_refused init_globals
           (zero_PickupRequest\<lparr>Consignee := zero_Consignee\<lparr>Consignee.Country := ''USA''\<rparr>\<rparr>)))
     = Some [''USA'']"
  unfolding document_RequestPickup
  by (simp add: zero_PickupRequest_def)

subsection \<open>The timeout\<close>



subsection \<open>The outcome of a call\<close>

text \<open>
  C3. Whatever the network and the server do, \<^verbatim>\<open>RequestPickup\<close> returns a \<^verbatim>\<open>nil\<close>
  mapping and an error that is not \<^verbatim>\<open>nil\<close>, and the \<^verbatim>\<open>log.Println\<close> of the success path
  never runs. The reason is the decode step: \<^verbatim>\<open>xml.Unmarshal\<close> into a map returns an error
  for every input and leaves its target as it was, so a call that gets as far as decoding (the
  payload marshalled, the POST answered, the body read to its end) returns an error under the
  message \<^verbatim>\<open>odfl.RequestPickup - could not read response 2\<close>.
\<close>

theorem RequestPickup_never_succeeds:
  "responseData (RequestPickup w g p) = None
   \<and> err (RequestPickup w g p) \<noteq> None
   \<and> logged (RequestPickup w g p) = []
   \<and> fst (xml_Unmarshal tok data v) = v
   \<and> snd (xml_Unmarshal tok data v) \<noteq> None
   \<and> (xml_Marshal (FormatFloat w) p = Inr xmlBytes \<longrightarrow>
        Post w \<lparr>Timeout = timeout g, url = odURL, contentType = ''text/xml'',
                 body = xmlBytes\<rparr> = Inr res \<longrightarrow>
        ioutil_ReadAll (Body res) = (bytes, None) \<longrightarrow>
        (\<exists>cause. err (RequestPickup w g p)
           = Some (Wrap cause ''odfl.RequestPickup - could not read response 2'')))"
  by (simp add: RequestPickup_def xml_Marshal_def xml_Unmarshal_def Let_def
           split: sum.splits prod.splits option.splits)

theorem RequestPickup_never_succeeds_witness:
  "xml_Marshal (FormatFloat mock_not_xml) zero_PickupRequest
     = Inr (marshalValue (\<lambda>x. ''0'') ''PickupRequest''
              (reflect_PickupRequest zero_PickupRequest))
   \<and> Post mock_not_xml
        \<lparr>Timeout = timeout init_globals, url = odURL, contentType = ''text/xml'',
          body = marshalValue (\<lambda>x. ''0'') ''PickupRequest''
                   (reflect_PickupRequest zero_PickupRequest)\<rparr>
     = Inr \<lparr>StatusCode = 200, Body = Stream ''confirmationNumber=TEST123'' None\<rparr>
   \<and> ioutil_ReadAll
        (Body \<lparr>StatusCode = 200, Body = Stream ''confirmationNumber=TEST123'' None\<rparr>)
     = (''confirmationNumber=TEST123'', None)
   \<and> responseData (RequestPickup mock_not_xml init_globals zero_PickupRequest) = None
   \<and> logged (RequestPickup mock_not_xml init_globals zero_PickupRequest) = []
   \<and> (\<exists>cause. err (RequestPickup mock_not_xml init_globals zero_PickupRequest)
        = Some (Wrap cause ''odfl.RequestPickup - could not read response 2''))"
proof -
  let ?ts = "marshalValue (\<lambda>x. ''0'') ''PickupRequest''
               (reflect_PickupRequest zero_PickupRequest)"
  let ?res = "\<lparr>StatusCode = 200, Body = Stream ''confirmationNumber=TEST123'' None\<rparr>"
  have m: "xml_Marshal (FormatFloat mock_not_xml) zero_PickupRequest = Inr ?ts"
    by (simp add: xml_Marshal_def mock_not_xml_def mock_reply_def)
  have p: "Post mock_not_xml
             \<lparr>Timeout = timeout init_globals, url = odURL, contentType = ''text/xml'',
               body = ?ts\<rparr> = Inr ?res"
    by (simp add: mock_not_xml_def mock_reply_def)
  have r: "ioutil_ReadAll (Body ?res) = (''confirmationNumber=TEST123'', None)"
    by simp
  show ?thesis
    using m p r
      RequestPickup_never_succeeds [of mock_not_xml init_globals zero_PickupRequest _ _ _
        ?ts ?res "''confirmationNumber=TEST123''"]
    by (simp only: simp_thms)
qed

text \<open>
  C7. The claim: a well-formed reply of key-value pairs decodes to a mapping with those keys
  and no error. The code decodes into a map, which \<^verbatim>\<open>encoding/xml\<close> does not support: on
  the reply below, whose first start tag the tokenizer reads without error, the call returns
  no mapping and the error \<^verbatim>\<open>unknown type map[string]interface {}\<close> under the decode
  message.
\<close>

theorem RequestPickup_well_formed_reply_fails:
  "responseData (RequestPickup mock_confirmed init_globals zero_PickupRequest) = None
   \<and> err (RequestPickup mock_confirmed init_globals zero_PickupRequest)
     = Some (Wrap (LibError ''unknown type map[string]interface {}'')
               ''odfl.RequestPickup - could not read response 2'')"
  by (simp add: RequestPickup_def xml_Marshal_def xml_Unmarshal_def mock_confirmed_def
        mock_reply_def Let_def)

text \<open>
  C8. When the POST succeeds and the body is read to its end, the call returns no mapping and
  the decode error: the cause is the tokenizer's error when the body has no start tag it can
  read (empty, truncated, not XML), and the decoder's refusal of the map otherwise. This holds
  for every body, so for every malformed one.
\<close>

theorem RequestPickup_DecodeError:
  assumes "xml_Marshal (FormatFloat w) p = Inr xmlBytes"
    and "Post w \<lparr>Timeout = timeout g, url = odURL, contentType = ''text/xml'',
                  body = xmlBytes\<rparr> = Inr res"
    and "ioutil_ReadAll (Body res) = (bytes, None)"
  shows "responseData (RequestPickup w g p) = None
    \<and> err (RequestPickup w g p)
      = Some (Wrap (case firstStart w bytes of
                      Inl e \<Rightarrow> e
                    | Inr start \<Rightarrow> LibError ''unknown type map[string]interface {}'')
                ''odfl.RequestPickup - could not read response 2'')"
  using assms
  by (simp add: RequestPickup_def xml_Unmarshal_def Let_def split: sum.splits)

theorem RequestPickup_DecodeError_witness:
  "xml_Marshal (FormatFloat mock_truncated) zero_PickupRequest
     = Inr (marshalValue (\<lambda>x. ''0'') ''PickupRequest''
              (reflect_PickupRequest zero_PickupRequest))
   \<and> Post mock_truncated
        \<lparr>Timeout = timeout init_globals, url = odURL, contentType = ''text/xml'',
          body = marshalValue (\<lambda>x. ''0'') ''PickupRequest''
                   (reflect_PickupRequest zero_PickupRequest)\<rparr>
     = Inr \<lparr>StatusCode = 200, Body = Stream ''<pickupRes'' None\<rparr>
   \<and> ioutil_ReadAll (Body \<lparr>StatusCode = 200, Body = Stream ''<pickupRes'' None\<rparr>)
     = (''<pickupRes'', None)
   \<and> responseData (RequestPickup mock_truncated init_globals zero_PickupRequest) = None
   \<and> err (RequestPickup mock_truncated init_globals zero_PickupRequest)
     = Some (Wrap (LibError ''XML syntax error on line 1: unexpected EOF'')
               ''odfl.RequestPickup - could not read response 2'')"
proof -
  let ?ts = "marshalValue (\<lambda>x. ''0'') ''PickupRequest''
               (reflect_PickupRequest zero_PickupRequest)"
  let ?res = "\<lparr>StatusCode = 200, Body = Stream ''<pickupRes'' None\<rparr>"
  have m: "xml_Marshal (FormatFloat mock_truncated) zero_PickupRequest = Inr ?ts"
    by (simp add: xml_Marshal_def mock_truncated_def mock_reply_def)
  have p: "Post mock_truncated
             \<lparr>Timeout = timeout init_globals, url = odURL, contentType = ''text/xml'',
               body = ?ts\<rparr> = Inr ?res"
    by (simp add: mock_truncated_def mock_reply_def)
  have r: "ioutil_ReadAll (Body ?res) = (''<pickupRes'', None)"
    by simp
  have f: "firstStart mock_truncated ''<pickupRes''
             = Inl (LibError ''XML syntax error on line 1: unexpected EOF'')"
    by (simp add: mock_truncated_def mock_reply_def)
  show ?thesis
    using m p r RequestPickup_DecodeError [OF m p r]
    by (simp only: f sum.case simp_thms)
qed



subsection \<open>The caller's object\<close>

text \<open>
  C10. When the marshal step succeeds, the object after the call is the object before it with
  \<^verbatim>\<open>SoapenvAttr\<close> and \<^verbatim>\<open>PicAttr\<close> set to the two namespace constants and
  \<^verbatim>\<open>Shipper.TestFlag\<close> set to \<^verbatim>\<open>testMode\<close>. Nothing else changes: \<^verbatim>\<open>XMLName\<close> and the
  consignee are the same, and the shipper is the same once its flag is put back. The
  environment \<open>w\<close> is arbitrary, so this holds however the POST and the decoding end.
\<close>

theorem RequestPickup_frame:
  assumes "xml_Marshal (FormatFloat w) p = Inr xmlBytes"
  shows "object (RequestPickup w g p)
      = p\<lparr>SoapenvAttr := soapenv, PicAttr := pic,
          Shipper := (Shipper p)\<lparr>TestFlag := testMode g\<rparr>\<rparr>
    \<and> XMLName (object (RequestPickup w g p)) = XMLName p
    \<and> Consignee (object (RequestPickup w g p)) = Consignee p
    \<and> (Shipper (object (RequestPickup w g p)))\<lparr>TestFlag := TestFlag (Shipper p)\<rparr> = Shipper p"
  using assms
  by (simp add: object_RequestPickup)

theorem RequestPickup_frame_witness:
  "xml_Marshal (FormatFloat mock_refused) zero_PickupRequest
     = Inr (marshalValue (\<lambda>x. ''0'') ''PickupRequest''
              (reflect_PickupRequest zero_PickupRequest))
   \<and> object (RequestPickup mock_refused init_globals zero_PickupRequest)
     = \<lparr>XMLName = \<lparr>Space = [], Local = []\<rparr>,
        SoapenvAttr = ''http://schemas.xmlsoap.org/soap/envelope/'',
        PicAttr = ''http://pickup.ws.odfl.com'',
        Shipper = zero_Shipper\<lparr>TestFlag := True\<rparr>, Consignee = zero_Consignee\<rparr>"
proof -
  have m: "xml_Marshal (FormatFloat mock_refused) zero_PickupRequest
             = Inr (marshalValue (\<lambda>x. ''0'') ''PickupRequest''
                      (reflect_PickupRequest zero_PickupRequest))"
    by (simp add: xml_Marshal_def mock_refused_def)
  show ?thesis
    using m RequestPickup_frame [OF m, of init_globals]
    by (simp add: zero_PickupRequest_def init_globals_def soapenv_def pic_def)
qed

end
